theory Spec2Isabelle
  imports Complex_Main
begin

section \<open>Python and framework values\<close>

text \<open>
  Exceptions are values.  The first group is raised by Python itself, the second by
  Django's ORM, the third is what Django REST framework turns into a response.
  The Russian message strings of the source are left out of \<open>ValueError\<close> and
  \<open>ValidationError\<close>: nothing branches on them.
\<close>

datatype error =
    AttributeError string
  | KeyError string
  | TypeError
  | ZeroDivisionError
  | ValueError
  | DoesNotExist
  | IntegrityError
  | Http404
  | ValidationError
  | NotAuthenticated
  | PermissionDenied

text \<open>
  The HTTP status the framework's exception handler answers with.  It handles
  \<open>Http404\<close> and the \<open>APIException\<close> classes; every other exception leaves the
  view uncaught and becomes a server error.
\<close>

fun status_code :: "error \<Rightarrow> nat" where
  "status_code Http404 = 404"
| "status_code ValidationError = 400"
| "status_code NotAuthenticated = 401"
| "status_code PermissionDenied = 403"
| "status_code _ = 500"

section \<open>reviews/models.py\<close>

datatype Role = USER | MODERATOR | ADMIN

record User =
  User_pk :: nat
  username :: string
  email :: string
  first_name :: string
  last_name :: string
  bio :: string
  role :: Role
  is_staff :: bool

definition is_user :: "User \<Rightarrow> bool" where
  "is_user u = (role u = USER)"

definition is_admin :: "User \<Rightarrow> bool" where
  "is_admin u = (role u = ADMIN \<or> is_staff u)"

definition is_moderator :: "User \<Rightarrow> bool" where
  "is_moderator u = (role u = MODERATOR)"

text \<open>
  \<open>Title\<close> declares exactly these columns (\<open>category\<close> is a nullable foreign key,
  \<open>genre\<close> a many-to-many relation, both held as primary keys).
\<close>

record Title =
  Title_pk :: nat
  name :: string
  year :: int
  description :: string
  category :: "nat option"
  genre :: "nat list"

text \<open>
  \<open>AuthorTextPubDateAbstractModel\<close> is the abstract base of \<open>Review\<close> and
  \<open>Comment\<close>; the record extension mirrors the inheritance.  Foreign keys hold the
  primary key of the row they point to.
\<close>

record AuthorTextPubDate =
  pk :: nat
  author :: nat
  text_body :: string
  pub_date :: nat

record Review = AuthorTextPubDate +
  title :: nat
  score :: int

record Comment = AuthorTextPubDate +
  review :: nat

text \<open>The database: one list of rows per table.\<close>

record store =
  users :: "User list"
  titles :: "Title list"
  reviews :: "Review list"
  comments :: "Comment list"

section \<open>Queries\<close>

text \<open>
  \<open>get_object_or_404(Model, **lookup)\<close>: the row matching the lookup, or
  \<open>Http404\<close>.  Every lookup in this file is on a primary key or a unique column, so at
  most one row matches.
\<close>

definition get_object_or_404 :: "'a list \<Rightarrow> ('a \<Rightarrow> bool) \<Rightarrow> error + 'a" where
  "get_object_or_404 rows p = (case find p rows of None \<Rightarrow> Inl Http404 | Some x \<Rightarrow> Inr x)"

text \<open>\<open>Model.objects.get(**lookup)\<close> raises \<open>DoesNotExist\<close> instead.\<close>

definition objects_get :: "'a list \<Rightarrow> ('a \<Rightarrow> bool) \<Rightarrow> error + 'a" where
  "objects_get rows p = (case find p rows of None \<Rightarrow> Inl DoesNotExist | Some x \<Rightarrow> Inr x)"

text \<open>
  URL keyword arguments.  \<open>kwargs.get(k)\<close> is \<open>None\<close> for a missing key, and a
  lookup \<open>id=None\<close> matches no row.
\<close>

type_synonym kwargs = "string \<rightharpoonup> nat"

section \<open>api/views.py: CommentViewSet\<close>

text \<open>
  \<open>title.reviews.filter(id=review_id).first()\<close> searches the reviews whose
  \<open>title\<close> is the resolved title.
\<close>

definition title_reviews_first :: "store \<Rightarrow> Title \<Rightarrow> nat option \<Rightarrow> Review option" where
  "title_reviews_first st t review_id =
     find (\<lambda>r. title r = Title_pk t \<and> Some (pk r) = review_id) (reviews st)"

definition CommentViewSet_get_queryset :: "store \<Rightarrow> kwargs \<Rightarrow> error + Comment list" where
  "CommentViewSet_get_queryset st kw =
     (let title_id = kw ''title_id'';
          review_id = kw ''review_id''
      in case get_object_or_404 (titles st) (\<lambda>t. Some (Title_pk t) = title_id) of
           Inl e \<Rightarrow> Inl e
         | Inr t \<Rightarrow>
             (case title_reviews_first st t review_id of
                None \<Rightarrow> Inl ValueError
              | Some r \<Rightarrow> Inr (filter (\<lambda>c. review c = pk r) (comments st))))"

text \<open>
  \<open>serializer.save(author=self.request.user, review=review)\<close> inserts a comment.
  \<open>request.user\<close> is \<open>None\<close> here for Django's \<open>AnonymousUser\<close>, which cannot be
  assigned to the foreign key \<open>author\<close> (\<open>ValueError\<close>).  The text is the
  serializer's validated data; the new primary key is fresh.
\<close>

definition fresh_pk :: "nat list \<Rightarrow> nat" where
  "fresh_pk ks = Suc (fold max ks 0)"

definition Comment_objects_create ::
  "store \<Rightarrow> User option \<Rightarrow> Review \<Rightarrow> string \<Rightarrow> nat \<Rightarrow> error + store" where
  "Comment_objects_create st request_user r txt now =
     (case request_user of
        None \<Rightarrow> Inl ValueError
      | Some u \<Rightarrow>
          Inr (st\<lparr>comments :=
                 comments st @
                 [\<lparr>pk = fresh_pk (map pk (comments st)), author = User_pk u,
                   text_body = txt, pub_date = now, review = pk r\<rparr>]\<rparr>))"

definition CommentViewSet_perform_create ::
  "store \<Rightarrow> kwargs \<Rightarrow> User option \<Rightarrow> string \<Rightarrow> nat \<Rightarrow> error + store" where
  "CommentViewSet_perform_create st kw request_user txt now =
     (let title_id = kw ''title_id'';
          review_id = kw ''review_id''
      in case get_object_or_404 (titles st) (\<lambda>t. Some (Title_pk t) = title_id) of
           Inl e \<Rightarrow> Inl e
         | Inr t \<Rightarrow>
             (case title_reviews_first st t review_id of
                None \<Rightarrow> Inl ValueError
              | Some r \<Rightarrow> Comment_objects_create st request_user r txt now))"

section \<open>api/views.py: TokenView\<close>

text \<open>
  What \<open>TokenView.post\<close> calls and this repository's two files do not hold:
  \<open>TokenSerializer\<close> (api/serializers.py; \<open>None\<close> when \<open>is_valid\<close> rejects the
  request data, else the validated username and confirmation code), Django's
  \<open>default_token_generator.check_token\<close> and simplejwt's \<open>AccessToken.for_user\<close>.
  They are parameters.
\<close>

record token_env =
  TokenSerializer_validated :: "(string \<rightharpoonup> string) \<Rightarrow> (string \<times> string) option"
  check_token :: "User \<Rightarrow> string \<Rightarrow> bool"
  for_user :: "User \<Rightarrow> string"

definition TokenView_post ::
  "token_env \<Rightarrow> store \<Rightarrow> (string \<rightharpoonup> string) \<Rightarrow> error + string" where
  "TokenView_post env st request_data =
     (case TokenSerializer_validated env request_data of
        None \<Rightarrow> Inl ValidationError
      | Some (uname, confirmation_code) \<Rightarrow>
          (case get_object_or_404 (users st) (\<lambda>u. username u = uname) of
             Inl e \<Rightarrow> Inl e
           | Inr u \<Rightarrow>
               if \<not> check_token env u confirmation_code then Inl ValidationError
               else Inr (for_user env u)))"

section \<open>Example data\<close>

definition alice :: User where
  "alice = \<lparr>User_pk = 1, username = ''alice'', email = ''alice@example.org'',
     first_name = [], last_name = [], bio = [], role = USER, is_staff = False\<rparr>"

definition bob :: User where
  "bob = \<lparr>User_pk = 2, username = ''bob'', email = ''bob@example.org'',
     first_name = [], last_name = [], bio = [], role = USER, is_staff = False\<rparr>"

definition title5 :: Title where
  "title5 = \<lparr>Title_pk = 5, name = ''Solaris'', year = 1961, description = [],
     category = None, genre = []\<rparr>"

definition title9 :: Title where
  "title9 = \<lparr>Title_pk = 9, name = ''Stalker'', year = 1979, description = [],
     category = None, genre = []\<rparr>"

definition review7 :: Review where
  "review7 = \<lparr>pk = 7, author = 1, text_body = ''slow and good'', pub_date = 100,
     title = 9, score = 8\<rparr>"

definition comment3 :: Comment where
  "comment3 = \<lparr>pk = 3, author = 1, text_body = ''agreed'', pub_date = 101, review = 7\<rparr>"

definition demo_store :: store where
  "demo_store = \<lparr>users = [alice, bob], titles = [title5, title9], reviews = [review7],
     comments = [comment3]\<rparr>"

definition kwargs57 :: kwargs where
  "kwargs57 = [''title_id'' \<mapsto> 5, ''review_id'' \<mapsto> 7]"

definition demo_token_env :: token_env where
  "demo_token_env =
     \<lparr>TokenSerializer_validated =
        (\<lambda>d. case d ''username'' of
               None \<Rightarrow> None
             | Some u \<Rightarrow> (case d ''confirmation_code'' of None \<Rightarrow> None | Some c \<Rightarrow> Some (u, c))),
      check_token = (\<lambda>u c. c = ''code-'' @ username u),
      for_user = (\<lambda>u. ''jwt-'' @ username u)\<rparr>"

section \<open>Nested resolution of comments\<close>

lemma title_reviews_first_other_title:
  assumes "distinct (map pk (reviews st))" and "r \<in> set (reviews st)"
    and "title r \<noteq> Title_pk t"
  shows "title_reviews_first st t (Some (pk r)) = None"
proof -
  have "\<not> (title x = Title_pk t \<and> Some (pk x) = Some (pk r))" if "x \<in> set (reviews st)" for x
  proof
    assume h: "title x = Title_pk t \<and> Some (pk x) = Some (pk r)"
    from assms(1) have "inj_on pk (set (reviews st))"
      by (simp add: distinct_map)
    with that assms(2) h have "x = r"
      by (auto dest: inj_onD)
    with h assms(3) show False by simp
  qed
  then show ?thesis
    unfolding title_reviews_first_def by (simp add: find_None_iff)
qed

lemma find_SomeD:
  "find P xs = Some x \<Longrightarrow> P x \<and> x \<in> set xs"
  by (auto simp: find_Some_iff)

lemma get_title_or_404:
  "get_object_or_404 (titles st) (\<lambda>t. Title_pk t = tid) =
     (if tid \<in> Title_pk ` set (titles st)
      then Inr (the (find (\<lambda>t. Title_pk t = tid) (titles st))) else Inl Http404)"
proof (cases "find (\<lambda>t. Title_pk t = tid) (titles st)")
  case None
  then have "tid \<notin> Title_pk ` set (titles st)"
    by (auto simp: find_None_iff)
  with None show ?thesis
    by (simp add: get_object_or_404_def)
next
  case (Some t)
  from find_SomeD [OF Some] have "tid \<in> Title_pk ` set (titles st)"
    by auto
  with Some show ?thesis
    by (simp add: get_object_or_404_def)
qed

lemma found_title_pk:
  assumes "tid \<in> Title_pk ` set (titles st)"
  shows "Title_pk (the (find (\<lambda>t. Title_pk t = tid) (titles st))) = tid"
proof (cases "find (\<lambda>t. Title_pk t = tid) (titles st)")
  case None
  with assms show ?thesis
    by (auto simp: find_None_iff)
next
  case (Some t)
  from find_SomeD [OF Some] Some show ?thesis
    by simp
qed

text \<open>
  C5, as the code has it.  When the review named in the path exists but belongs to
  another title, both \<open>CommentViewSet.get_queryset\<close> and
  \<open>CommentViewSet.perform_create\<close> raise \<open>ValueError\<close>, which no handler turns into
  a response (status 500); \<open>Http404\<close> is the answer only when the title itself does
  not exist.  The title is resolved first, the review is then looked up among that
  title's reviews.
\<close>

theorem ResolveComment_other_title:
  assumes "kw ''title_id'' = Some tid" and "kw ''review_id'' = Some (pk r)"
    and "distinct (map pk (reviews st))" and "r \<in> set (reviews st)" and "title r \<noteq> tid"
  shows "CommentViewSet_get_queryset st kw =
           (if tid \<in> Title_pk ` set (titles st) then Inl ValueError else Inl Http404) \<and>
         CommentViewSet_perform_create st kw request_user txt now =
           (if tid \<in> Title_pk ` set (titles st) then Inl ValueError else Inl Http404) \<and>
         status_code ValueError = 500"
proof (cases "tid \<in> Title_pk ` set (titles st)")
  case True
  let ?t = "the (find (\<lambda>t. Title_pk t = tid) (titles st))"
  from True have "Title_pk ?t = tid" by (rule found_title_pk)
  with assms have "title_reviews_first st ?t (Some (pk r)) = None"
    by (intro title_reviews_first_other_title) simp_all
  with True assms(1,2) show ?thesis
    by (simp add: CommentViewSet_get_queryset_def CommentViewSet_perform_create_def
        get_title_or_404)
next
  case False
  with assms(1,2) show ?thesis
    by (simp add: CommentViewSet_get_queryset_def CommentViewSet_perform_create_def
        get_title_or_404)
qed

theorem ResolveComment_other_title_witness:
  "CommentViewSet_get_queryset demo_store kwargs57 = Inl ValueError \<and>
   CommentViewSet_perform_create demo_store kwargs57 (Some bob) ''me too'' 102 = Inl ValueError"
  using ResolveComment_other_title [of kwargs57 5 review7 demo_store "Some bob" "''me too''" 102]
  by (simp add: kwargs57_def demo_store_def review7_def title5_def title9_def)

text \<open>
  The claim as the specification words it (a \<open>NotFound\<close> result) fails at the
  specification's own example: title 5 exists, review 7 exists and belongs to title 9.
\<close>

theorem ResolveComment_NotFound_counterexample:
  "title5 \<in> set (titles demo_store) \<and> review7 \<in> set (reviews demo_store) \<and>
   pk review7 = 7 \<and> title review7 = 9 \<and>
   CommentViewSet_get_queryset demo_store kwargs57 \<noteq> Inl Http404 \<and>
   CommentViewSet_perform_create demo_store kwargs57 (Some bob) ''me too'' 102 \<noteq> Inl Http404"
  by (simp add: CommentViewSet_get_queryset_def CommentViewSet_perform_create_def
      get_object_or_404_def title_reviews_first_def kwargs57_def demo_store_def review7_def
      title5_def title9_def)

section \<open>Redeeming a confirmation code\<close>

lemma get_user_or_404_absent:
  "uname \<notin> username ` set (users st) \<Longrightarrow>
     get_object_or_404 (users st) (\<lambda>u. username u = uname) = Inl Http404"
  by (auto simp: get_object_or_404_def find_None_iff split: option.splits)

lemma get_user_or_404_present:
  assumes "distinct (map username (users st))" and "u \<in> set (users st)"
  shows "get_object_or_404 (users st) (\<lambda>v. username v = username u) = Inr u"
proof -
  from assms(1) have inj: "inj_on username (set (users st))"
    by (simp add: distinct_map)
  obtain v where v: "find (\<lambda>v. username v = username u) (users st) = Some v"
    using assms(2) by (cases "find (\<lambda>v. username v = username u) (users st)")
      (auto simp: find_None_iff)
  then have "v \<in> set (users st)" and "username v = username u"
    by (auto simp: find_Some_iff)
  with inj assms(2) have "v = u" by (auto dest: inj_onD)
  with v show ?thesis by (simp add: get_object_or_404_def)
qed

text \<open>
  C6.  Once \<open>TokenSerializer\<close> has accepted the request data, \<open>TokenView.post\<close>
  answers \<open>Http404\<close> when no user has the username; when the user exists (usernames
  are unique) and the code does not verify, it raises \<open>ValidationError\<close>, whose status
  is 400 and not the 401 of an authentication failure; otherwise it returns the access
  token minted for that user.
\<close>

theorem RedeemCode_results:
  assumes "TokenSerializer_validated env request_data = Some (uname, code)"
    and "distinct (map username (users st))"
  shows "(uname \<notin> username ` set (users st) \<longrightarrow>
            TokenView_post env st request_data = Inl Http404) \<and>
         (\<forall>u. u \<in> set (users st) \<and> username u = uname \<and> \<not> check_token env u code \<longrightarrow>
            TokenView_post env st request_data = Inl ValidationError) \<and>
         (\<forall>u. u \<in> set (users st) \<and> username u = uname \<and> check_token env u code \<longrightarrow>
            TokenView_post env st request_data = Inr (for_user env u)) \<and>
         status_code ValidationError = 400 \<and> status_code NotAuthenticated = 401"
proof -
  have absent: "TokenView_post env st request_data = Inl Http404"
    if "uname \<notin> username ` set (users st)"
    using that assms(1) by (simp add: TokenView_post_def get_user_or_404_absent)
  have present: "TokenView_post env st request_data =
      (if check_token env u code then Inr (for_user env u) else Inl ValidationError)"
    if "u \<in> set (users st)" and "username u = uname" for u
    using that assms get_user_or_404_present [of st u]
    by (auto simp: TokenView_post_def)
  show ?thesis
    using absent present by auto
qed

theorem RedeemCode_results_witness:
  "TokenView_post demo_token_env demo_store
     [''username'' \<mapsto> ''carol'', ''confirmation_code'' \<mapsto> ''code-carol''] = Inl Http404 \<and>
   TokenView_post demo_token_env demo_store
     [''username'' \<mapsto> ''alice'', ''confirmation_code'' \<mapsto> ''code-bob''] = Inl ValidationError \<and>
   TokenView_post demo_token_env demo_store
     [''username'' \<mapsto> ''alice'', ''confirmation_code'' \<mapsto> ''code-alice''] = Inr ''jwt-alice''"
proof -
  let ?d1 = "[''username'' \<mapsto> ''carol'', ''confirmation_code'' \<mapsto> ''code-carol'']"
  let ?d2 = "[''username'' \<mapsto> ''alice'', ''confirmation_code'' \<mapsto> ''code-bob'']"
  let ?d3 = "[''username'' \<mapsto> ''alice'', ''confirmation_code'' \<mapsto> ''code-alice'']"
  have dist: "distinct (map username (users demo_store))"
    by (simp add: demo_store_def alice_def bob_def)
  have v1: "TokenSerializer_validated demo_token_env ?d1 = Some (''carol'', ''code-carol'')"
    and v2: "TokenSerializer_validated demo_token_env ?d2 = Some (''alice'', ''code-bob'')"
    and v3: "TokenSerializer_validated demo_token_env ?d3 = Some (''alice'', ''code-alice'')"
    by (simp_all add: demo_token_env_def)
  have absent: "''carol'' \<notin> username ` set (users demo_store)"
    by (simp add: demo_store_def alice_def bob_def)
  have alice: "alice \<in> set (users demo_store)" "username alice = ''alice''"
    by (simp_all add: demo_store_def alice_def)
  have bad: "\<not> check_token demo_token_env alice ''code-bob''"
    and good: "check_token demo_token_env alice ''code-alice''"
    and tok: "for_user demo_token_env alice = ''jwt-alice''"
    by (simp_all add: demo_token_env_def alice_def)
  from RedeemCode_results [OF v1 dist] absent
  have c1: "TokenView_post demo_token_env demo_store ?d1 = Inl Http404"
    by blast
  from RedeemCode_results [OF v2 dist] alice bad
  have c2: "TokenView_post demo_token_env demo_store ?d2 = Inl ValidationError"
    by blast
  from RedeemCode_results [OF v3 dist] alice good
  have "TokenView_post demo_token_env demo_store ?d3 = Inr (for_user demo_token_env alice)"
    by blast
  with tok have c3: "TokenView_post demo_token_env demo_store ?d3 = Inr ''jwt-alice''"
    by simp
  from c1 c2 c3 show ?thesis
    by (intro conjI)
qed

end
